theory Spec2Isabelle
  imports Main
begin

section \<open>Values, errors and the outside world\<close>

text \<open>
  The client talks to three remote parties through axios (the Kandji API, its signed-URL
  endpoint and the storage backend) and reads the local file system, the process
  environment and the glob library. None of them is code of the repository, so they are
  the parameters of the model, collected in the record \<open>env\<close>. The remote side is a
  deterministic machine over a state \<open>'s\<close>: every call hands it the request and gets the
  outcome and the next state, so a reply may depend on the request and on everything
  that went before. A fulfilled promise is \<open>Inr\<close>, a rejected one (axios rejects every
  status outside 2xx, and every transport failure) is \<open>Inl\<close>.

  Every call that leaves the process, and every timer the client waits on, is appended
  to the \<open>trace\<close> of the world, together with its outcome. Console and logger output is
  not modelled.
\<close>

type_synonym headers = "(string \<times> string) list"
type_synonym json_obj = "(string \<times> string) list"
type_synonym body = string

text \<open>
  A parsed JSON value. An object lists its members with distinct names; a number is kept
  as an integer (the code below only asks whether a value is a string or an array).
\<close>

datatype json =
    JNull
  | JBoolean bool
  | JNumber int
  | JText string
  | JArray "json list"
  | JObject "(string \<times> json) list"

text \<open>
  \<open>error.response\<close> of an axios error: its \<open>status\<close> and its \<open>data\<close>. A response without a
  body has the data \<open>JNull\<close>.
\<close>

record response =
  status :: nat
  response_data :: json

datatype js_error =
    Error string
  | TypeError string
  | SystemError string
  | AxiosError "response option" string

fun response_of :: "js_error \<Rightarrow> response option" where
  "response_of (AxiosError r m) = r"
| "response_of (Error m) = None"
| "response_of (TypeError m) = None"
| "response_of (SystemError m) = None"

text \<open>What a template literal prints for a value that may be undefined.\<close>

fun template :: "string option \<Rightarrow> string" where
  "template None = ''undefined''"
| "template (Some s) = s"

text \<open>\<open>!v\<close> for a value that is undefined or a string.\<close>

fun falsy :: "string option \<Rightarrow> bool" where
  "falsy None = True"
| "falsy (Some s) = (s = [])"

text \<open>\<open>branch.prerelease\<close> of semantic-release: undefined, a boolean or a channel name.\<close>

datatype jsval = JUndefined | JBool bool | JString string

fun truthy :: "jsval \<Rightarrow> bool" where
  "truthy JUndefined = False"
| "truthy (JBool b) = b"
| "truthy (JString s) = (s \<noteq> [])"

text \<open>\<open>String.prototype.includes\<close>: the second string occurs somewhere in the first.\<close>

fun str_includes :: "string \<Rightarrow> string \<Rightarrow> bool" where
  "str_includes [] sub = (sub = [])"
| "str_includes (c # cs) sub = (take (length sub) (c # cs) = sub \<or> str_includes cs sub)"

text \<open>\<open>Array.prototype.join\<close> on an array of strings.\<close>

fun join :: "string \<Rightarrow> string list \<Rightarrow> string" where
  "join sep [] = []"
| "join sep [x] = x"
| "join sep (x # y # ys) = x @ sep @ join sep (y # ys)"

text \<open>\<open>filepath.split("/").pop()\<close>: what follows the last slash.\<close>

definition last_segment :: "string \<Rightarrow> string" where
  "last_segment p = rev (takeWhile (\<lambda>c. c \<noteq> CHR ''/'') (rev p))"

text \<open>The signed upload target, as the upload endpoint returns it.\<close>

record signed_url =
  post_url :: string
  file_key :: string
  post_data :: "(string \<times> string) list"

text \<open>
  A part of a multipart form: a text value, or the read stream of a file
  (\<open>fs.createReadStream\<close>), which is named by its path.
\<close>

datatype form_value = Field string | FileStream string

type_synonym form_data = "(string \<times> form_value) list"

datatype event =
    ApiCall string string headers "json_obj option" "js_error + body"
  | SignedUrlCall string json_obj headers "js_error + signed_url"
  | StoragePost string form_data "js_error + body"
  | Delay nat

record 's env =
  api_reply :: "'s \<Rightarrow> string \<Rightarrow> string \<Rightarrow> headers \<Rightarrow> json_obj option \<Rightarrow> (js_error + body) \<times> 's"
  signed_reply :: "'s \<Rightarrow> string \<Rightarrow> json_obj \<Rightarrow> headers \<Rightarrow> (js_error + signed_url) \<times> 's"
  storage_reply :: "'s \<Rightarrow> string \<Rightarrow> form_data \<Rightarrow> (js_error + body) \<times> 's"
  path_exists :: "string \<Rightarrow> bool"
  glob_sync :: "string \<Rightarrow> string list"
  KANDJI_BASE_URL :: "string option"
  KANDJI_API_TOKEN :: "string option"

record 's world =
  trace :: "event list"
  remote :: 's

definition emit :: "event \<Rightarrow> 's \<Rightarrow> 's world \<Rightarrow> 's world" where
  "emit ev s w = \<lparr>trace = trace w @ [ev], remote = s\<rparr>"

text \<open>\<open>await new Promise((resolve) => setTimeout(resolve, ms))\<close>.\<close>

definition sleep :: "nat \<Rightarrow> 's world \<Rightarrow> 's world" where
  "sleep ms w = \<lparr>trace = trace w @ [Delay ms], remote = remote w\<rparr>"

section \<open>kandji-client.js\<close>

record client =
  baseUrl :: string
  apiToken :: string

text \<open>The constructor: it throws unless both arguments are truthy.\<close>

definition KandjiClient :: "string option \<Rightarrow> string option \<Rightarrow> js_error + client" where
  "KandjiClient url token =
     (if falsy url \<or> falsy token then Inl (Error ''Base URL and API token are required.'')
      else Inr \<lparr>baseUrl = the url, apiToken = the token\<rparr>)"

definition api_headers :: "client \<Rightarrow> headers" where
  "api_headers c =
     [(''Authorization'', ''Bearer '' @ apiToken c),
      (''Content-Type'', ''application/json''),
      (''maxBodyLength'', ''Infinity'')]"

text \<open>\<open>request\<close>: one axios call; a rejection is logged and thrown again unchanged.\<close>

definition request ::
  "'s env \<Rightarrow> client \<Rightarrow> string \<Rightarrow> string \<Rightarrow> json_obj option \<Rightarrow> 's world \<Rightarrow> (js_error + body) \<times> 's world" where
  "request E c method endpoint data w =
     (let url = baseUrl c @ endpoint;
          (r, s) = api_reply E (remote w) method url (api_headers c) data
      in (r, emit (ApiCall method url (api_headers c) data r) s w))"

definition getSignedUrl ::
  "'s env \<Rightarrow> client \<Rightarrow> string \<Rightarrow> 's world \<Rightarrow> (js_error + signed_url) \<times> 's world" where
  "getSignedUrl E c filename w =
     (let endpoint = ''/api/v1/library/custom-apps/upload'';
          data = [(''name'', filename)];
          hs = [(''Authorization'', ''Bearer '' @ apiToken c),
                (''Content-Type'', ''application/x-www-form-urlencoded'')];
          (r, s) = signed_reply E (remote w) (baseUrl c @ endpoint) data hs
      in (r, emit (SignedUrlCall (baseUrl c @ endpoint) data hs r) s w))"

text \<open>
  The multipart body of \<open>uploadToS3\<close>, in the order of the \<open>append\<close> calls. \<open>post_data\<close> is
  listed as \<open>Object.entries\<close> enumerates it.
\<close>

definition fileFormData :: "string \<Rightarrow> signed_url \<Rightarrow> form_data" where
  "fileFormData filepath signedUrl =
     (''key'', Field (file_key signedUrl))
     # map (\<lambda>(key, v). (key, Field v)) (filter (\<lambda>(key, v). key \<noteq> ''key'') (post_data signedUrl))
     @ [(''file'', FileStream filepath)]"

definition uploadToS3 ::
  "'s env \<Rightarrow> string \<Rightarrow> signed_url \<Rightarrow> 's world \<Rightarrow> (js_error + body) \<times> 's world" where
  "uploadToS3 E filepath signedUrl w =
     (let form = fileFormData filepath signedUrl;
          (r, s) = storage_reply E (remote w) (post_url signedUrl) form
      in (r, emit (StoragePost (post_url signedUrl) form r) s w))"

definition maxAttempts :: nat where
  "maxAttempts = 10"

definition timeoutDuration :: nat where
  "timeoutDuration = 5000"

text \<open>
  \<open>data?.detail\<close>: the member \<open>detail\<close> of an object; undefined (\<open>None\<close>) for null and for
  every value that has no such member.
\<close>

fun detail_of :: "json \<Rightarrow> json option" where
  "detail_of (JObject members) = map_of members ''detail''"
| "detail_of JNull = None"
| "detail_of (JBoolean b) = None"
| "detail_of (JNumber n) = None"
| "detail_of (JText t) = None"
| "detail_of (JArray xs) = None"

text \<open>
  \<open>detail?.includes("still being processed")\<close>. The optional chain stops at undefined and
  null. A string is searched for the text and an array for an element equal to it. A
  boolean, a number and an object have no function \<open>includes\<close>, so the call throws a
  TypeError.
\<close>

fun includes_call :: "json option \<Rightarrow> js_error + bool" where
  "includes_call None = Inr False"
| "includes_call (Some JNull) = Inr False"
| "includes_call (Some (JText d)) = Inr (str_includes d ''still being processed'')"
| "includes_call (Some (JArray xs)) = Inr (JText ''still being processed'' \<in> set xs)"
| "includes_call (Some (JBoolean b)) =
     Inl (TypeError ''error.response.data?.detail?.includes is not a function'')"
| "includes_call (Some (JNumber n)) =
     Inl (TypeError ''error.response.data?.detail?.includes is not a function'')"
| "includes_call (Some (JObject members)) =
     Inl (TypeError ''error.response.data?.detail?.includes is not a function'')"

text \<open>
  The condition of the catch block of \<open>updateCustomApp\<close>, evaluated from left to right:
  its value, or the error it throws. The detail is looked at only when there is a
  response and its status is 503.
\<close>

definition retry_test :: "js_error \<Rightarrow> js_error + bool" where
  "retry_test error =
     (case response_of error of
        None \<Rightarrow> Inr False
      | Some r \<Rightarrow> if status r = 503 then includes_call (detail_of (response_data r)) else Inr False)"

definition custom_app_endpoint :: "string \<Rightarrow> string" where
  "custom_app_endpoint appId = ''/api/v1/library/custom-apps/'' @ appId"

function updateCustomApp ::
  "'s env \<Rightarrow> client \<Rightarrow> string \<Rightarrow> string \<Rightarrow> nat \<Rightarrow> 's world \<Rightarrow> (js_error + body) \<times> 's world" where
  "updateCustomApp E c appId fileKey attempt w =
     (if attempt > maxAttempts
      then (Inl (Error ''Unable to verify updated app after 10 attempts. Exiting''), w)
      else
        (case request E c ''PATCH'' (custom_app_endpoint appId) (Some [(''file_key'', fileKey)]) w of
           (Inr updatedApp, w') \<Rightarrow> (Inr updatedApp, w')
         | (Inl error, w') \<Rightarrow>
             (case retry_test error of
                Inl thrown \<Rightarrow> (Inl thrown, w')
              | Inr retry \<Rightarrow>
                  if retry
                  then updateCustomApp E c appId fileKey (attempt + 1) (sleep timeoutDuration w')
                  else (Inl error, w'))))"
  by pat_completeness auto
termination
  by (relation "measure (\<lambda>(E, c, appId, fileKey, attempt, w). Suc maxAttempts - attempt)") auto

declare updateCustomApp.simps [simp del]

text \<open>
  \<open>upload\<close>. \<open>fs.realpathSync\<close> throws for a path that does not resolve, before anything
  is sent.
\<close>

definition upload ::
  "'s env \<Rightarrow> client \<Rightarrow> string \<Rightarrow> string \<Rightarrow> 's world \<Rightarrow> (js_error + unit) \<times> 's world" where
  "upload E c filepath appId w =
     (if path_exists E filepath
      then
        (case getSignedUrl E c (last_segment filepath) w of
           (Inl e, w1) \<Rightarrow> (Inl e, w1)
         | (Inr signedUrl, w1) \<Rightarrow>
             (case uploadToS3 E filepath signedUrl w1 of
                (Inl e, w2) \<Rightarrow> (Inl e, w2)
              | (Inr stored, w2) \<Rightarrow>
                  (case updateCustomApp E c appId (file_key signedUrl) 0 w2 of
                     (Inl e, w3) \<Rightarrow> (Inl e, w3)
                   | (Inr updatedApp, w3) \<Rightarrow> (Inr (), w3))))
      else (Inl (SystemError ''ENOENT: no such file or directory''), w))"

section \<open>The release plugin\<close>

text \<open>
  The replacement text of \<open>String.prototype.replace\<close> is a template: \<open>$$\<close> stands for a
  dollar sign, \<open>$&\<close> for the match, \<open>$`\<close> for what precedes the match and \<open>$'\<close> for what
  follows it. The pattern of \<open>resolveAsset\<close> has no capture group, so every other
  use of the dollar sign stands for itself.
\<close>

fun substitution :: "string \<Rightarrow> string \<Rightarrow> string \<Rightarrow> string \<Rightarrow> string" where
  "substitution matched pre post [] = []"
| "substitution matched pre post [c] = [c]"
| "substitution matched pre post (c # d # rest) =
     (if c = CHR 0x24 \<and> d = CHR 0x24 then CHR 0x24 # substitution matched pre post rest
      else if c = CHR 0x24 \<and> d = CHR ''&'' then matched @ substitution matched pre post rest
      else if c = CHR 0x24 \<and> d = CHR 0x60 then pre @ substitution matched pre post rest
      else if c = CHR 0x24 \<and> d = CHR 0x27 then post @ substitution matched pre post rest
      else c # substitution matched pre post (d # rest))"

definition version_placeholder :: string where
  "version_placeholder = ''${nextRelease.version}''"

text \<open>
  \<open>assetPattern.replace(/\$\{nextRelease\.version\}/g, nextReleaseVersion)\<close>: every
  occurrence of the placeholder, from left to right; \<open>seen\<close> is the part of the pattern
  already passed.
\<close>

function replace_version :: "string \<Rightarrow> string \<Rightarrow> string \<Rightarrow> string" where
  "replace_version seen [] v = []"
| "replace_version seen (c # cs) v =
     (if take (length version_placeholder) (c # cs) = version_placeholder
      then substitution version_placeholder seen (drop (length version_placeholder) (c # cs)) v
           @ replace_version (seen @ version_placeholder) (drop (length version_placeholder) (c # cs)) v
      else c # replace_version (seen @ [c]) cs v)"
  by pat_completeness auto
termination
  by (relation "measure (\<lambda>(seen, s, v). length s)") (auto simp: version_placeholder_def)

declare replace_version.simps [simp del]

definition resolveAsset :: "'s env \<Rightarrow> string option \<Rightarrow> string option \<Rightarrow> js_error + string" where
  "resolveAsset E assetPattern nextReleaseVersion =
     (if falsy nextReleaseVersion
      then Inl (Error ''nextRelease.version is undefined. Cannot resolve asset path.'')
      else
        (case assetPattern of
           None \<Rightarrow> Inl (TypeError ''Cannot read properties of undefined (reading replace)'')
         | Some pattern \<Rightarrow>
             (let processedPattern = replace_version [] pattern (the nextReleaseVersion);
                  matchedFiles = glob_sync E processedPattern
              in if length matchedFiles = 0
                 then Inl (Error (''No files found for pattern: '' @ processedPattern))
                 else if length matchedFiles > 1
                 then Inl (Error (''Multiple files matched for pattern '' @ [CHR 0x22] @ processedPattern
                        @ [CHR 0x22] @ '', but only one asset is allowed.''))
                 else Inr (hd matchedFiles))))"

text \<open>
  The plugin configuration object. A member that is absent is \<open>None\<close>. \<open>publish\<close> reads the
  script from the member \<open>postinstallScript\<close>, \<open>kandjiSemanticReleasePlugin\<close> from the
  member \<open>postinstall_script\<close>.
\<close>

record plugin_config =
  appID :: "string option"
  asset :: "string option"
  release :: "bool option"
  preRelease :: "bool option"
  postinstallScript :: "string list option"
  postinstall_script :: "string list option"

record release_context =
  branch_prerelease :: jsval
  nextRelease_version :: "string option"

text \<open>A destructuring default: it applies when the member is undefined.\<close>

fun default :: "'a \<Rightarrow> 'a option \<Rightarrow> 'a" where
  "default d None = d"
| "default d (Some v) = v"

text \<open>The gate of both entry points, on the defaulted flags and \<open>isPrerelease\<close>.\<close>

definition skipped :: "bool \<Rightarrow> bool \<Rightarrow> bool \<Rightarrow> bool" where
  "skipped rel pre isPrerelease =
     ((\<not> rel \<and> \<not> pre) \<or> (isPrerelease \<and> \<not> pre) \<or> (\<not> isPrerelease \<and> \<not> rel))"

text \<open>The follow-up of both entry points: the script lines, joined, in one PATCH.\<close>

definition patch_postinstall ::
  "'s env \<Rightarrow> client \<Rightarrow> string option \<Rightarrow> string list \<Rightarrow> 's world \<Rightarrow> (js_error + unit) \<times> 's world" where
  "patch_postinstall E c app script w =
     (if length script > 0
      then
        (case request E c ''PATCH'' (custom_app_endpoint (template app))
                (Some [(''postinstall_script'', join [CHR 0x0A] script)]) w of
           (Inl e, w') \<Rightarrow> (Inl e, w')
         | (Inr updated, w') \<Rightarrow> (Inr (), w'))
      else (Inr (), w))"

text \<open>
  \<open>publish\<close> once the gate is passed. The catch block logs the error and throws it again.
  \<open>upload\<close> uses its \<open>appId\<close> in a template literal only, so it is given the printed value.
\<close>

definition publish_run ::
  "'s env \<Rightarrow> plugin_config \<Rightarrow> release_context \<Rightarrow> 's world \<Rightarrow> (js_error + unit) \<times> 's world" where
  "publish_run E pluginConfig ctx w =
     (case KandjiClient (KANDJI_BASE_URL E) (KANDJI_API_TOKEN E) of
        Inl e \<Rightarrow> (Inl e, w)
      | Inr kandjiClient \<Rightarrow>
          (case resolveAsset E (asset pluginConfig) (nextRelease_version ctx) of
             Inl e \<Rightarrow> (Inl e, w)
           | Inr resolvedAsset \<Rightarrow>
               (case upload E kandjiClient resolvedAsset (template (appID pluginConfig)) w of
                  (Inl e, w1) \<Rightarrow> (Inl e, w1)
                | (Inr uploaded, w1) \<Rightarrow>
                    patch_postinstall E kandjiClient (appID pluginConfig)
                      (default [] (postinstallScript pluginConfig)) w1)))"

definition publish ::
  "'s env \<Rightarrow> plugin_config \<Rightarrow> release_context \<Rightarrow> 's world \<Rightarrow> (js_error + unit) \<times> 's world" where
  "publish E pluginConfig ctx w =
     (if skipped (default True (release pluginConfig)) (default False (preRelease pluginConfig))
           (truthy (branch_prerelease ctx))
      then (Inr (), w)
      else publish_run E pluginConfig ctx w)"

text \<open>\<open>kandjiSemanticReleasePlugin\<close> of semantic-release-kandji.js once the gate is passed.\<close>

definition plugin_run ::
  "'s env \<Rightarrow> plugin_config \<Rightarrow> release_context \<Rightarrow> 's world \<Rightarrow> (js_error + unit) \<times> 's world" where
  "plugin_run E config ctx w =
     (if falsy (appID config) \<or> falsy (asset config)
      then (Inl (Error ''Invalid configuration: appID and asset are required.''), w)
      else if falsy (KANDJI_BASE_URL E) \<or> falsy (KANDJI_API_TOKEN E)
      then (Inl (Error ''Environment variables KANDJI_BASE_URL and KANDJI_API_TOKEN must be set.''), w)
      else
        (case KandjiClient (KANDJI_BASE_URL E) (KANDJI_API_TOKEN E) of
           Inl e \<Rightarrow> (Inl e, w)
         | Inr kandjiClient \<Rightarrow>
             if path_exists E (the (asset config))
             then
               (case upload E kandjiClient (the (asset config)) (template (appID config)) w of
                  (Inl e, w1) \<Rightarrow> (Inl e, w1)
                | (Inr uploaded, w1) \<Rightarrow>
                    patch_postinstall E kandjiClient (appID config)
                      (default [] (postinstall_script config)) w1)
             else (Inl (SystemError ''ENOENT: no such file or directory''), w)))"

definition kandjiSemanticReleasePlugin ::
  "'s env \<Rightarrow> plugin_config \<Rightarrow> release_context \<Rightarrow> 's world \<Rightarrow> (js_error + unit) \<times> 's world" where
  "kandjiSemanticReleasePlugin E config ctx w =
     (if skipped (default True (release config)) (default False (preRelease config))
           (truthy (branch_prerelease ctx))
      then (Inr (), w)
      else plugin_run E config ctx w)"

section \<open>Describing traces\<close>

text \<open>
  The vocabulary of the statements below. \<open>still_processing\<close> holds of the failures that
  the attach loop retries: those on which the condition of the catch block is true.
  \<open>plain_detail\<close> holds of the failures whose \<open>detail\<close> is absent, null or a string.
  \<open>attach_call\<close> is the PATCH of \<open>file_key\<close> with its outcome; \<open>retried\<close> is a run of attach
  attempts that each failed and were each followed by the five-second delay; \<open>timed_out\<close>
  is the error of the attempt bound.
\<close>

definition still_processing :: "js_error \<Rightarrow> bool" where
  "still_processing error = (retry_test error = Inr True)"



definition attach_call :: "client \<Rightarrow> string \<Rightarrow> string \<Rightarrow> js_error + body \<Rightarrow> event" where
  "attach_call c appId fileKey r =
     ApiCall ''PATCH'' (baseUrl c @ ''/api/v1/library/custom-apps/'' @ appId) (api_headers c)
       (Some [(''file_key'', fileKey)]) r"

definition retried :: "client \<Rightarrow> string \<Rightarrow> string \<Rightarrow> js_error list \<Rightarrow> event list" where
  "retried c appId fileKey errs =
     concat (map (\<lambda>e. [attach_call c appId fileKey (Inl e), Delay 5000]) errs)"

definition timed_out :: js_error where
  "timed_out = Error ''Unable to verify updated app after 10 attempts. Exiting''"

text \<open>
  What the catch block throws for a failure \<open>err\<close> that it does not retry: \<open>err\<close> itself
  when its condition is false, and otherwise the error that the condition threw.
\<close>

definition thrown_for :: "js_error \<Rightarrow> js_error \<Rightarrow> bool" where
  "thrown_for err e = (case retry_test err of Inl thrown \<Rightarrow> e = thrown | Inr retry \<Rightarrow> retry = False \<and> e = err)"

text \<open>
  The three ways a run of the attach loop that starts at \<open>attempt\<close> can end, after the
  failed attempts \<open>errs\<close>: an attempt succeeds; the bound is passed and no further attempt
  is made; an attempt fails with an error \<open>fin\<close> that is not retried.
\<close>

definition attach_shape ::
  "client \<Rightarrow> string \<Rightarrow> string \<Rightarrow> nat \<Rightarrow> event list \<Rightarrow> js_error list \<Rightarrow> js_error \<Rightarrow>
     (js_error + body) \<times> 's world \<Rightarrow> bool" where
  "attach_shape c appId fileKey attempt before errs fin out =
     (case out of
        (Inr b, w') \<Rightarrow>
          attempt \<le> 10 \<and> length errs \<le> 10 - attempt \<and>
          trace w' = before @ retried c appId fileKey errs @ [attach_call c appId fileKey (Inr b)]
      | (Inl e, w') \<Rightarrow>
          (e = timed_out \<and> length errs = 11 - attempt \<and>
           trace w' = before @ retried c appId fileKey errs)
          \<or> (attempt \<le> 10 \<and> length errs \<le> 10 - attempt \<and> thrown_for fin e \<and>
              trace w' = before @ retried c appId fileKey errs @ [attach_call c appId fileKey (Inl fin)]))"

text \<open>The number of calls to the Kandji API in a list of events.\<close>

fun is_api_call :: "event \<Rightarrow> bool" where
  "is_api_call (ApiCall method url hs data r) = True"
| "is_api_call (SignedUrlCall url data hs r) = False"
| "is_api_call (StoragePost url form r) = False"
| "is_api_call (Delay ms) = False"

definition api_calls :: "event list \<Rightarrow> nat" where
  "api_calls evs = length (filter is_api_call evs)"

text \<open>The events a step added: those of \<open>w'\<close> past the ones of \<open>w\<close>.\<close>

definition since :: "'s world \<Rightarrow> 's world \<Rightarrow> event list" where
  "since w w' = drop (length (trace w)) (trace w')"

text \<open>The signed-target request and the storage push, with their outcomes.\<close>

definition signed_url_call :: "client \<Rightarrow> string \<Rightarrow> js_error + signed_url \<Rightarrow> event" where
  "signed_url_call c filename r =
     SignedUrlCall (baseUrl c @ ''/api/v1/library/custom-apps/upload'') [(''name'', filename)]
       [(''Authorization'', ''Bearer '' @ apiToken c),
        (''Content-Type'', ''application/x-www-form-urlencoded'')] r"

definition storage_post :: "string \<Rightarrow> signed_url \<Rightarrow> js_error + body \<Rightarrow> event" where
  "storage_post filepath su r = StoragePost (post_url su) (fileFormData filepath su) r"

text \<open>
  An event that, if it is a request to the Kandji API, goes to a URL under the base URL
  \<open>u\<close> and carries the bearer token \<open>k\<close>. The storage push goes to the signed target and
  carries neither.
\<close>

fun sent_with :: "string \<Rightarrow> string \<Rightarrow> event \<Rightarrow> bool" where
  "sent_with u k (ApiCall verb url hs d r) =
     (take (length u) url = u \<and> map_of hs ''Authorization'' = Some (''Bearer '' @ k))"
| "sent_with u k (SignedUrlCall url d hs r) =
     (take (length u) url = u \<and> map_of hs ''Authorization'' = Some (''Bearer '' @ k))"
| "sent_with u k (StoragePost url form r) = True"
| "sent_with u k (Delay ms) = True"

text \<open>The PATCH of the post-install script, with its outcome.\<close>

definition postinstall_call :: "client \<Rightarrow> string \<Rightarrow> string list \<Rightarrow> js_error + body \<Rightarrow> event" where
  "postinstall_call c app script r =
     ApiCall ''PATCH'' (baseUrl c @ ''/api/v1/library/custom-apps/'' @ app) (api_headers c)
       (Some [(''postinstall_script'', join [CHR 0x0A] script)]) r"

section \<open>A scripted backend\<close>

text \<open>
  A backend for the examples: the API answers its n-th call with the n-th entry of a
  script (and with success once the script is used up), the upload endpoint issues one
  fixed target and the storage backend accepts every push. Two files exist on disk.
\<close>

definition busy :: js_error where
  "busy = AxiosError
            (Some \<lparr>status = 503, response_data = JObject [(''detail'', JText ''object is still being processed'')]\<rparr>)
            ''Request failed with status code 503''"

definition not_found :: js_error where
  "not_found = AxiosError
                 (Some \<lparr>status = 404, response_data = JObject [(''detail'', JText ''resource not found'')]\<rparr>)
                 ''Request failed with status code 404''"



definition target :: signed_url where
  "target = \<lparr>post_url = ''https://s3/x'', file_key = ''k1'', post_data = [(''policy'', ''p'')]\<rparr>"

definition scripted :: "(js_error + body) list \<Rightarrow> nat env" where
  "scripted replies =
     \<lparr>api_reply = (\<lambda>n method url hs data. (if n < length replies then replies ! n else Inr ''ok'', Suc n)),
      signed_reply = (\<lambda>n url data hs. (Inr target, n)),
      storage_reply = (\<lambda>n url form. (Inr [], n)),
      path_exists = (\<lambda>p. p = ''/tmp/build.zip'' \<or> p = ''/tmp/build-1.2.0.zip''),
      glob_sync = (\<lambda>p. if p = ''/tmp/build.zip'' \<or> p = ''/tmp/build-1.2.0.zip'' then [p]
                        else if p = ''/tmp/build*.zip'' then [''/tmp/build-1.2.0.zip'', ''/tmp/build.zip'']
                        else []),
      KANDJI_BASE_URL = Some ''https://api'',
      KANDJI_API_TOKEN = Some ''t''\<rparr>"

definition kc :: client where
  "kc = \<lparr>baseUrl = ''https://api'', apiToken = ''t''\<rparr>"

definition w0 :: "nat world" where
  "w0 = \<lparr>trace = [], remote = 0\<rparr>"

definition storage_denied :: js_error where
  "storage_denied = AxiosError (Some \<lparr>status = 403, response_data = JNull\<rparr>) ''Request failed with status code 403''"

definition storage_down :: "nat env" where
  "storage_down = (scripted [])\<lparr>storage_reply := (\<lambda>n url form. (Inl storage_denied, n))\<rparr>"

text \<open>Plugin configurations and release contexts for the examples.\<close>

definition example_config :: plugin_config where
  "example_config =
     \<lparr>appID = Some ''app-123'', asset = Some ''/tmp/build-${nextRelease.version}.zip'',
      release = None, preRelease = None,
      postinstallScript = Some [''#!/bin/bash'', ''echo done''],
      postinstall_script = None\<rparr>"

definition on_main :: release_context where
  "on_main = \<lparr>branch_prerelease = JBool False, nextRelease_version = Some ''1.2.0''\<rparr>"

definition on_beta :: release_context where
  "on_beta = \<lparr>branch_prerelease = JString ''beta'', nextRelease_version = Some ''1.2.0''\<rparr>"

definition readme_config :: plugin_config where
  "readme_config =
     \<lparr>appID = Some ''app-123'', asset = Some ''/tmp/build.zip'',
      release = Some True, preRelease = Some False,
      postinstallScript = None,
      postinstall_script = Some [''#!/bin/bash'', ''echo done'']\<rparr>"

section \<open>Basic facts\<close>



lemma request_trace:
  "request E c method endpoint data w = (r, w') \<Longrightarrow>
     trace w' = trace w @ [ApiCall method (baseUrl c @ endpoint) (api_headers c) data r]"
  by (auto simp: request_def emit_def Let_def split: prod.splits)

lemma attach_request_trace:
  "request E c ''PATCH'' (custom_app_endpoint appId) (Some [(''file_key'', fileKey)]) w = (r, w') \<Longrightarrow>
     trace w' = trace w @ [attach_call c appId fileKey r]"
  by (simp add: request_trace attach_call_def custom_app_endpoint_def)

lemma attach_shape_step:
  assumes "attach_shape c appId fileKey (attempt + 1)
             (before @ [attach_call c appId fileKey (Inl e), Delay 5000]) errs fin out"
    and "attempt \<le> 10"
  shows "attach_shape c appId fileKey attempt before (e # errs) fin out"
  using assms
  by (cases out) (auto simp: attach_shape_def retried_def split: sum.splits)

text \<open>Every run of the attach loop has one of the three shapes.\<close>

lemma updateCustomApp_trace:
  "\<exists>errs fin. list_all still_processing errs \<and>
     attach_shape c appId fileKey attempt (trace w) errs fin
       (updateCustomApp E c appId fileKey attempt w)"
proof (induction E c appId fileKey attempt w rule: updateCustomApp.induct)
  case (1 E c appId fileKey attempt w)
  show ?case
  proof (cases "attempt > maxAttempts")
    case True
    then have "updateCustomApp E c appId fileKey attempt w = (Inl timed_out, w)"
      by (simp add: updateCustomApp.simps timed_out_def)
    moreover from True have "11 - attempt = 0" by (simp add: maxAttempts_def)
    ultimately have "attach_shape c appId fileKey attempt (trace w) [] timed_out
                       (updateCustomApp E c appId fileKey attempt w)"
      by (simp add: attach_shape_def retried_def)
    then show ?thesis
      by (intro exI[of _ "[]"] exI[of _ timed_out]) simp
  next
    case False
    obtain r w1 where req:
      "request E c ''PATCH'' (custom_app_endpoint appId) (Some [(''file_key'', fileKey)]) w = (r, w1)"
      by (cases "request E c ''PATCH'' (custom_app_endpoint appId) (Some [(''file_key'', fileKey)]) w")
    note tr = attach_request_trace[OF req]
    from False have le: "attempt \<le> 10" by (simp add: maxAttempts_def)
    show ?thesis
    proof (cases r)
      case (Inr b)
      with False req have "updateCustomApp E c appId fileKey attempt w = (Inr b, w1)"
        by (simp add: updateCustomApp.simps)
      with tr Inr le
      have "attach_shape c appId fileKey attempt (trace w) [] timed_out
              (updateCustomApp E c appId fileKey attempt w)"
        by (simp add: attach_shape_def retried_def)
      then show ?thesis
        by (intro exI[of _ "[]"] exI[of _ timed_out]) simp
    next
      case (Inl e)
      show ?thesis
      proof (cases "retry_test e")
        case thrown: (Inl t)
        with False req Inl
        have "updateCustomApp E c appId fileKey attempt w = (Inl t, w1)"
          by (simp add: updateCustomApp.simps)
        with tr Inl le thrown
        have "attach_shape c appId fileKey attempt (trace w) [] e
                (updateCustomApp E c appId fileKey attempt w)"
          by (simp add: attach_shape_def retried_def thrown_for_def)
        then show ?thesis
          by (intro exI[of _ "[]"] exI[of _ e]) simp
      next
        case tested: (Inr retry)
        show ?thesis
        proof (cases retry)
          case no: False
          with False req Inl tested
          have "updateCustomApp E c appId fileKey attempt w = (Inl e, w1)"
            by (simp add: updateCustomApp.simps)
          with tr Inl le tested no
          have "attach_shape c appId fileKey attempt (trace w) [] e
                  (updateCustomApp E c appId fileKey attempt w)"
            by (simp add: attach_shape_def retried_def thrown_for_def)
          then show ?thesis
            by (intro exI[of _ "[]"] exI[of _ e]) simp
        next
          case yes: True
          let ?w2 = "sleep timeoutDuration w1"
          from False req Inl tested yes
          have step: "updateCustomApp E c appId fileKey attempt w =
                      updateCustomApp E c appId fileKey (attempt + 1) ?w2"
            by (simp add: updateCustomApp.simps)
          have tr2: "trace ?w2 = trace w @ [attach_call c appId fileKey (Inl e), Delay 5000]"
            using tr Inl by (simp add: sleep_def timeoutDuration_def)
          from "1.IH"[OF False req[symmetric] Inl tested yes]
          obtain errs fin where errs: "list_all still_processing errs"
            and sh: "attach_shape c appId fileKey (attempt + 1) (trace ?w2) errs fin
                       (updateCustomApp E c appId fileKey (attempt + 1) ?w2)"
            by blast
          from sh have "attach_shape c appId fileKey attempt (trace w) (e # errs) fin
                       (updateCustomApp E c appId fileKey attempt w)"
            unfolding step tr2 by (rule attach_shape_step) (rule le)
          moreover from tested yes have "still_processing e"
            by (simp add: still_processing_def)
          ultimately show ?thesis
            using errs by (intro exI[of _ "e # errs"] exI[of _ fin]) simp
        qed
      qed
    qed
  qed
qed

lemma since_append: "trace w' = trace w @ evs \<Longrightarrow> since w w' = evs"
  by (simp add: since_def)

lemma api_calls_append: "api_calls (xs @ ys) = api_calls xs + api_calls ys"
  by (simp add: api_calls_def)

lemma api_calls_retried: "api_calls (retried c appId fileKey errs) = length errs"
  by (induction errs) (simp_all add: api_calls_def retried_def attach_call_def)

lemma api_calls_attach: "api_calls [attach_call c appId fileKey r] = 1"
  by (simp add: api_calls_def attach_call_def)

lemma set_retried:
  "set (retried c appId fileKey errs) \<subseteq> insert (Delay 5000) (range (attach_call c appId fileKey))"
  by (induction errs) (auto simp: retried_def)

lemma attach_request:
  assumes "api_reply E (remote w) ''PATCH'' (baseUrl c @ ''/api/v1/library/custom-apps/'' @ appId)
             (api_headers c) (Some [(''file_key'', fileKey)]) = (r, s)"
  shows "request E c ''PATCH'' (custom_app_endpoint appId) (Some [(''file_key'', fileKey)]) w =
           (r, \<lparr>trace = trace w @ [attach_call c appId fileKey r], remote = s\<rparr>)"
  using assms by (simp add: request_def emit_def attach_call_def custom_app_endpoint_def)



lemma updateCustomApp_ok:
  assumes "attempt \<le> 10"
    and "api_reply E (remote w) ''PATCH'' (baseUrl c @ ''/api/v1/library/custom-apps/'' @ appId)
           (api_headers c) (Some [(''file_key'', fileKey)]) = (Inr b, s)"
  shows "updateCustomApp E c appId fileKey attempt w =
           (Inr b, \<lparr>trace = trace w @ [attach_call c appId fileKey (Inr b)], remote = s\<rparr>)"
  using assms(1) attach_request[OF assms(2)]
  by (simp add: updateCustomApp.simps maxAttempts_def)



lemma updateCustomApp_retry:
  assumes "attempt \<le> 10"
    and "api_reply E (remote w) ''PATCH'' (baseUrl c @ ''/api/v1/library/custom-apps/'' @ appId)
           (api_headers c) (Some [(''file_key'', fileKey)]) = (Inl e, s)"
    and "still_processing e"
  shows "updateCustomApp E c appId fileKey attempt w =
           updateCustomApp E c appId fileKey (Suc attempt)
             \<lparr>trace = trace w @ [attach_call c appId fileKey (Inl e), Delay 5000], remote = s\<rparr>"
  using assms(1,3) attach_request[OF assms(2)]
  by (simp add: updateCustomApp.simps maxAttempts_def sleep_def timeoutDuration_def
        still_processing_def)





lemma still_processing_busy: "still_processing busy"
  by (simp add: still_processing_def retry_test_def busy_def)

lemma retry_test_not_found: "retry_test not_found = Inr False"
  by (simp add: retry_test_def not_found_def)

lemma still_processing_not_found: "still_processing not_found = False"
  by (simp add: still_processing_def retry_test_not_found)


lemma scripted_retries:
  "list_all still_processing errs \<Longrightarrow> attempt + length errs \<le> 11 \<Longrightarrow> remote w = length pre \<Longrightarrow>
   updateCustomApp (scripted (pre @ map Inl errs @ rest)) c appId fileKey attempt w =
   updateCustomApp (scripted (pre @ map Inl errs @ rest)) c appId fileKey (attempt + length errs)
     \<lparr>trace = trace w @ retried c appId fileKey errs, remote = length pre + length errs\<rparr>"
proof (induction errs arbitrary: pre attempt w)
  case Nil
  then have "\<lparr>trace = trace w, remote = length pre\<rparr> = w" by (cases w) simp
  then show ?case by (simp add: retried_def)
next
  case (Cons e errs)
  let ?E = "scripted (pre @ map Inl (e # errs) @ rest)"
  let ?w2 = "\<lparr>trace = trace w @ [attach_call c appId fileKey (Inl e), Delay 5000], remote = Suc (length pre)\<rparr>"
  from Cons.prems have le: "attempt \<le> 10" and sp: "still_processing e" by simp_all
  have "api_reply ?E (remote w) ''PATCH'' (baseUrl c @ ''/api/v1/library/custom-apps/'' @ appId)
           (api_headers c) (Some [(''file_key'', fileKey)]) = (Inl e, Suc (length pre))"
    using Cons.prems(3) by (simp add: scripted_def nth_append)
  from updateCustomApp_retry[OF le this sp]
  have step: "updateCustomApp ?E c appId fileKey attempt w = updateCustomApp ?E c appId fileKey (Suc attempt) ?w2" .
  have "updateCustomApp (scripted ((pre @ [Inl e]) @ map Inl errs @ rest)) c appId fileKey (Suc attempt) ?w2 =
        updateCustomApp (scripted ((pre @ [Inl e]) @ map Inl errs @ rest)) c appId fileKey (Suc attempt + length errs)
          \<lparr>trace = trace ?w2 @ retried c appId fileKey errs, remote = length (pre @ [Inl e]) + length errs\<rparr>"
    using Cons.prems by (intro Cons.IH) simp_all
  with step show ?case by (simp add: retried_def)
qed

section \<open>The attach loop\<close>




lemma getSignedUrl_trace:
  "getSignedUrl E c filename w = (r, w') \<Longrightarrow> trace w' = trace w @ [signed_url_call c filename r]"
  by (auto simp: getSignedUrl_def emit_def signed_url_call_def Let_def split: prod.splits)

lemma uploadToS3_trace:
  "uploadToS3 E filepath su w = (r, w') \<Longrightarrow> trace w' = trace w @ [storage_post filepath su r]"
  by (auto simp: uploadToS3_def emit_def storage_post_def Let_def split: prod.splits)






section \<open>Upload\<close>

lemma upload_steps:
  assumes "path_exists E filepath"
    and "signed_reply E (remote w) (baseUrl c @ ''/api/v1/library/custom-apps/upload'')
           [(''name'', last_segment filepath)]
           [(''Authorization'', ''Bearer '' @ apiToken c),
            (''Content-Type'', ''application/x-www-form-urlencoded'')] = (Inr su, s1)"
    and "storage_reply E s1 (post_url su) (fileFormData filepath su) = (r, s2)"
  shows "upload E c filepath appId w =
           (case r of
              Inl e \<Rightarrow>
                (Inl e, \<lparr>trace = trace w @ [signed_url_call c (last_segment filepath) (Inr su),
                                            storage_post filepath su (Inl e)], remote = s2\<rparr>)
            | Inr stored \<Rightarrow>
                (case updateCustomApp E c appId (file_key su) 0
                        \<lparr>trace = trace w @ [signed_url_call c (last_segment filepath) (Inr su),
                                            storage_post filepath su (Inr stored)], remote = s2\<rparr> of
                   (Inl e, w3) \<Rightarrow> (Inl e, w3)
                 | (Inr b, w3) \<Rightarrow> (Inr (), w3)))"
  using assms
  by (simp add: upload_def getSignedUrl_def uploadToS3_def emit_def signed_url_call_def
        storage_post_def split: sum.splits)

text \<open>
  C3 (as amended). A successful \<open>upload\<close> performs exactly one signed-target request, then
  exactly one storage push, then between 1 and 11 attach attempts (the first and at most
  ten retries), in that order, and nothing else but the delay after each failed attempt.
  Every attach attempt but the last failed with the retried signature, and the last, which
  succeeded, ends the run.
\<close>

theorem upload_success_trace:
  assumes "upload E c filepath appId w = (Inr u, w')"
  shows "\<exists>su stored errs b.
           list_all still_processing errs \<and> length errs \<le> 10 \<and>
           trace w' = trace w
             @ [signed_url_call c (last_segment filepath) (Inr su), storage_post filepath su (Inr stored)]
             @ retried c appId (file_key su) errs
             @ [attach_call c appId (file_key su) (Inr b)] \<and>
           api_calls (since w w') = length errs + 1 \<and>
           1 \<le> api_calls (since w w') \<and> api_calls (since w w') \<le> 11"
proof -
  from assms obtain su w1 stored w2 b where
    g: "getSignedUrl E c (last_segment filepath) w = (Inr su, w1)" and
    p: "uploadToS3 E filepath su w1 = (Inr stored, w2)" and
    a: "updateCustomApp E c appId (file_key su) 0 w2 = (Inr b, w')"
    by (auto simp: upload_def split: if_splits prod.splits sum.splits)
  obtain errs fin where errs: "list_all still_processing errs"
    and sh: "attach_shape c appId (file_key su) 0 (trace w2) errs fin
               (updateCustomApp E c appId (file_key su) 0 w2)"
    using updateCustomApp_trace by blast
  from sh a have len: "length errs \<le> 10"
    and t3: "trace w' = trace w2 @ retried c appId (file_key su) errs
                          @ [attach_call c appId (file_key su) (Inr b)]"
    by (simp_all add: attach_shape_def)
  from getSignedUrl_trace[OF g] uploadToS3_trace[OF p] t3
  have tr: "trace w' = trace w
             @ [signed_url_call c (last_segment filepath) (Inr su), storage_post filepath su (Inr stored)]
             @ retried c appId (file_key su) errs
             @ [attach_call c appId (file_key su) (Inr b)]"
    by simp
  then have snc: "since w w' = [signed_url_call c (last_segment filepath) (Inr su), storage_post filepath su (Inr stored)]
             @ retried c appId (file_key su) errs
             @ [attach_call c appId (file_key su) (Inr b)]"
    by (rule since_append)
  have z: "api_calls [signed_url_call c (last_segment filepath) (Inr su),
                      storage_post filepath su (Inr stored)] = 0"
    by (simp add: api_calls_def signed_url_call_def storage_post_def)
  have n: "api_calls (since w w') = length errs + 1"
    by (simp only: snc api_calls_append api_calls_retried api_calls_attach z)
  from errs len tr n show ?thesis
    by (intro exI[of _ su] exI[of _ stored] exI[of _ errs] exI[of _ b]) simp
qed

lemma scripted_upload:
  "upload (scripted rs) kc ''/tmp/build.zip'' ''app-123'' w0 =
     (case updateCustomApp (scripted rs) kc ''app-123'' ''k1'' 0
             \<lparr>trace = [signed_url_call kc ''build.zip'' (Inr target),
                       storage_post ''/tmp/build.zip'' target (Inr [])], remote = 0\<rparr> of
        (Inl e, w3) \<Rightarrow> (Inl e, w3)
      | (Inr b, w3) \<Rightarrow> (Inr (), w3))"
proof -
  have ls: "last_segment ''/tmp/build.zip'' = ''build.zip''"
    by (simp add: last_segment_def)
  have "upload (scripted rs) kc ''/tmp/build.zip'' ''app-123'' w0 =
          (case (Inr [] :: js_error + body) of
              Inl e \<Rightarrow>
                (Inl e, \<lparr>trace = trace w0 @ [signed_url_call kc (last_segment ''/tmp/build.zip'') (Inr target),
                                            storage_post ''/tmp/build.zip'' target (Inl e)], remote = 0\<rparr>)
            | Inr stored \<Rightarrow>
                (case updateCustomApp (scripted rs) kc ''app-123'' (file_key target) 0
                        \<lparr>trace = trace w0 @ [signed_url_call kc (last_segment ''/tmp/build.zip'') (Inr target),
                                            storage_post ''/tmp/build.zip'' target (Inr stored)], remote = 0\<rparr> of
                   (Inl e, w3) \<Rightarrow> (Inl e, w3)
                 | (Inr b, w3) \<Rightarrow> (Inr (), w3)))"
    by (rule upload_steps) (simp_all add: scripted_def w0_def)
  then show ?thesis
    by (simp add: ls w0_def target_def)
qed

theorem upload_success_trace_witness:
  "upload (scripted [Inl busy, Inr ''app'']) kc ''/tmp/build.zip'' ''app-123'' w0 =
     (Inr (),
      \<lparr>trace = [signed_url_call kc ''build.zip'' (Inr target),
                storage_post ''/tmp/build.zip'' target (Inr []),
                attach_call kc ''app-123'' ''k1'' (Inl busy), Delay 5000,
                attach_call kc ''app-123'' ''k1'' (Inr ''app'')],
         remote = 2\<rparr>) \<and>
   api_calls (since w0 (snd (upload (scripted [Inl busy, Inr ''app'']) kc ''/tmp/build.zip'' ''app-123'' w0))) \<le> 11"
proof -
  let ?E = "scripted [Inl busy, Inr ''app'']"
  let ?w2 = "\<lparr>trace = [signed_url_call kc ''build.zip'' (Inr target),
                       storage_post ''/tmp/build.zip'' target (Inr [])], remote = 0::nat\<rparr>"
  let ?w3 = "\<lparr>trace = trace ?w2 @ [attach_call kc ''app-123'' ''k1'' (Inl busy), Delay 5000], remote = 1::nat\<rparr>"
  have r0: "api_reply ?E (remote ?w2) ''PATCH'' (baseUrl kc @ ''/api/v1/library/custom-apps/'' @ ''app-123'')
              (api_headers kc) (Some [(''file_key'', ''k1'')]) = (Inl busy, 1)"
    by (simp add: scripted_def)
  have r1: "api_reply ?E (remote ?w3) ''PATCH'' (baseUrl kc @ ''/api/v1/library/custom-apps/'' @ ''app-123'')
              (api_headers kc) (Some [(''file_key'', ''k1'')]) = (Inr ''app'', 2)"
    by (simp add: scripted_def)
  have "updateCustomApp ?E kc ''app-123'' ''k1'' 0 ?w2 =
          (Inr ''app'', \<lparr>trace = trace ?w3 @ [attach_call kc ''app-123'' ''k1'' (Inr ''app'')], remote = 2\<rparr>)"
    using updateCustomApp_retry[OF _ r0 still_processing_busy, of 0] updateCustomApp_ok[OF _ r1, of 1]
    by simp
  then have up: "upload ?E kc ''/tmp/build.zip'' ''app-123'' w0 =
     (Inr (),
      \<lparr>trace = [signed_url_call kc ''build.zip'' (Inr target),
                storage_post ''/tmp/build.zip'' target (Inr []),
                attach_call kc ''app-123'' ''k1'' (Inl busy), Delay 5000,
                attach_call kc ''app-123'' ''k1'' (Inr ''app'')],
         remote = 2\<rparr>)"
    by (simp add: scripted_upload)
  from upload_success_trace[OF up] up show ?thesis
    by auto
qed

text \<open>
  The claim as first stated fails on the count: when the first ten attach attempts fail
  with the retried signature and the eleventh succeeds, \<open>upload\<close> succeeds after eleven
  attach attempts.
\<close>

theorem upload_success_counterexample:
  "upload (scripted (replicate 10 (Inl busy) @ [Inr ''app''])) kc ''/tmp/build.zip'' ''app-123'' w0 =
     (Inr (),
      \<lparr>trace = [signed_url_call kc ''build.zip'' (Inr target),
                storage_post ''/tmp/build.zip'' target (Inr [])]
               @ retried kc ''app-123'' ''k1'' (replicate 10 busy)
               @ [attach_call kc ''app-123'' ''k1'' (Inr ''app'')],
         remote = 11\<rparr>) \<and>
   api_calls (retried kc ''app-123'' ''k1'' (replicate 10 busy)
                @ [attach_call kc ''app-123'' ''k1'' (Inr ''app'')]) = 11"
proof -
  let ?E = "scripted ([] @ map Inl (replicate 10 busy) @ [Inr ''app''])"
  let ?w2 = "\<lparr>trace = [signed_url_call kc ''build.zip'' (Inr target),
                       storage_post ''/tmp/build.zip'' target (Inr [])], remote = 0::nat\<rparr>"
  let ?w = "\<lparr>trace = trace ?w2 @ retried kc ''app-123'' ''k1'' (replicate 10 busy),
             remote = length ([] :: (js_error + body) list) + length (replicate 10 busy)\<rparr>"
  have run: "updateCustomApp ?E kc ''app-123'' ''k1'' 0 ?w2 =
        updateCustomApp ?E kc ''app-123'' ''k1'' (0 + length (replicate 10 busy)) ?w"
    by (rule scripted_retries) (simp_all add: list_all_length still_processing_busy)
  have "api_reply ?E (remote ?w) ''PATCH'' (baseUrl kc @ ''/api/v1/library/custom-apps/'' @ ''app-123'')
          (api_headers kc) (Some [(''file_key'', ''k1'')]) = (Inr ''app'', 11)"
    by (simp add: scripted_def nth_append)
  from updateCustomApp_ok[OF _ this, of 10] run
  have "updateCustomApp (scripted (replicate 10 (Inl busy) @ [Inr ''app''])) kc ''app-123'' ''k1'' 0 ?w2 =
     (Inr ''app'',
      \<lparr>trace = [signed_url_call kc ''build.zip'' (Inr target),
                storage_post ''/tmp/build.zip'' target (Inr [])]
               @ retried kc ''app-123'' ''k1'' (replicate 10 busy)
               @ [attach_call kc ''app-123'' ''k1'' (Inr ''app'')],
         remote = 11\<rparr>)"
    by simp
  then show ?thesis
    by (simp add: scripted_upload api_calls_append api_calls_retried api_calls_attach)
qed

text \<open>
  C5. When the signed target was issued and the storage backend rejects the push,
  \<open>upload\<close> fails with the error of the push. The signed-target request and the one push
  are all that was sent: the push is not repeated and no call to the Kandji API, so no
  PATCH of \<open>file_key\<close>, is made.
\<close>

theorem failed_push_is_final:
  assumes "path_exists E filepath"
    and "signed_reply E (remote w) (baseUrl c @ ''/api/v1/library/custom-apps/upload'')
           [(''name'', last_segment filepath)]
           [(''Authorization'', ''Bearer '' @ apiToken c),
            (''Content-Type'', ''application/x-www-form-urlencoded'')] = (Inr su, s1)"
    and "storage_reply E s1 (post_url su) (fileFormData filepath su) = (Inl e, s2)"
  shows "upload E c filepath appId w =
           (Inl e, \<lparr>trace = trace w @ [signed_url_call c (last_segment filepath) (Inr su),
                                       storage_post filepath su (Inl e)], remote = s2\<rparr>) \<and>
         api_calls (since w (snd (upload E c filepath appId w))) = 0"
proof -
  from upload_steps[OF assms]
  have up: "upload E c filepath appId w =
           (Inl e, \<lparr>trace = trace w @ [signed_url_call c (last_segment filepath) (Inr su),
                                       storage_post filepath su (Inl e)], remote = s2\<rparr>)"
    by simp
  then show ?thesis
    by (simp add: since_def api_calls_def signed_url_call_def storage_post_def)
qed

theorem failed_push_is_final_witness:
  "upload storage_down kc ''/tmp/build.zip'' ''app-123'' w0 =
     (Inl storage_denied,
      \<lparr>trace = [signed_url_call kc ''build.zip'' (Inr target),
                storage_post ''/tmp/build.zip'' target (Inl storage_denied)], remote = 0\<rparr>)"
proof -
  have ls: "last_segment ''/tmp/build.zip'' = ''build.zip''"
    by (simp add: last_segment_def)
  have "upload storage_down kc ''/tmp/build.zip'' ''app-123'' w0 =
           (Inl storage_denied,
            \<lparr>trace = trace w0 @ [signed_url_call kc (last_segment ''/tmp/build.zip'') (Inr target),
                                 storage_post ''/tmp/build.zip'' target (Inl storage_denied)], remote = 0\<rparr>) \<and>
         api_calls (since w0 (snd (upload storage_down kc ''/tmp/build.zip'' ''app-123'' w0))) = 0"
    by (rule failed_push_is_final) (simp_all add: storage_down_def scripted_def w0_def)
  then show ?thesis
    by (simp add: ls w0_def)
qed

lemma updateCustomApp_events:
  "\<exists>evs. trace (snd (updateCustomApp E c appId fileKey attempt w)) = trace w @ evs \<and>
         set evs \<subseteq> insert (Delay 5000) (range (attach_call c appId fileKey))"
proof -
  obtain errs fin where sh: "attach_shape c appId fileKey attempt (trace w) errs fin
                           (updateCustomApp E c appId fileKey attempt w)"
    using updateCustomApp_trace by blast
  obtain res w' where out: "updateCustomApp E c appId fileKey attempt w = (res, w')"
    by (cases "updateCustomApp E c appId fileKey attempt w")
  from sh out consider
      "trace w' = trace w @ retried c appId fileKey errs"
    | r where "trace w' = trace w @ retried c appId fileKey errs @ [attach_call c appId fileKey r]"
    by (cases res) (auto simp: attach_shape_def)
  then show ?thesis
  proof cases
    case 1
    with out set_retried[of c appId fileKey errs] show ?thesis
      by (intro exI[of _ "retried c appId fileKey errs"]) simp
  next
    case 2
    with out set_retried[of c appId fileKey errs] show ?thesis
      by (intro exI[of _ "retried c appId fileKey errs @ [attach_call c appId fileKey r]"]) auto
  qed
qed

text \<open>
  C9. Whatever the attempt counter and the backend, the events of one run of the attach
  loop are delays of 5000 milliseconds and PATCH requests to
  \<open>/api/v1/library/custom-apps/{appId}\<close> under the base URL of the client, with the headers of
  the client and the body \<open>{ file_key: fileKey }\<close>; the requests differ in their outcome
  only. Within \<open>upload\<close> the file key of every attempt is the one of the signed target that
  the upload endpoint issued.
\<close>

theorem attach_attempts_identical:
  "(\<exists>evs. trace (snd (updateCustomApp E c appId fileKey attempt w)) = trace w @ evs \<and>
          set evs \<subseteq> insert (Delay 5000)
            (range (ApiCall ''PATCH'' (baseUrl c @ ''/api/v1/library/custom-apps/'' @ appId)
                      (api_headers c) (Some [(''file_key'', fileKey)])))) \<and>
   (path_exists E filepath \<and>
    signed_reply E (remote w) (baseUrl c @ ''/api/v1/library/custom-apps/upload'')
      [(''name'', last_segment filepath)]
      [(''Authorization'', ''Bearer '' @ apiToken c),
       (''Content-Type'', ''application/x-www-form-urlencoded'')] = (Inr su, sa) \<and>
    storage_reply E sa (post_url su) (fileFormData filepath su) = (Inr stored, sb) \<longrightarrow>
      (\<exists>evs. trace (snd (upload E c filepath appId w)) =
               trace w @ [signed_url_call c (last_segment filepath) (Inr su),
                          storage_post filepath su (Inr stored)] @ evs \<and>
             set evs \<subseteq> insert (Delay 5000)
               (range (ApiCall ''PATCH'' (baseUrl c @ ''/api/v1/library/custom-apps/'' @ appId)
                         (api_headers c) (Some [(''file_key'', file_key su)])))))"
proof -
  have rng: "range (attach_call c appId k) =
             range (ApiCall ''PATCH'' (baseUrl c @ ''/api/v1/library/custom-apps/'' @ appId)
                      (api_headers c) (Some [(''file_key'', k)]))" for k
    by (simp add: attach_call_def)
  have a: "\<exists>evs. trace (snd (updateCustomApp E c appId fileKey attempt w)) = trace w @ evs \<and>
          set evs \<subseteq> insert (Delay 5000)
            (range (ApiCall ''PATCH'' (baseUrl c @ ''/api/v1/library/custom-apps/'' @ appId)
                      (api_headers c) (Some [(''file_key'', fileKey)])))"
    using updateCustomApp_events[of E c appId fileKey attempt w] by (simp only: rng)
  have b: "\<exists>evs. trace (snd (upload E c filepath appId w)) =
               trace w @ [signed_url_call c (last_segment filepath) (Inr su),
                          storage_post filepath su (Inr stored)] @ evs \<and>
             set evs \<subseteq> insert (Delay 5000)
               (range (ApiCall ''PATCH'' (baseUrl c @ ''/api/v1/library/custom-apps/'' @ appId)
                         (api_headers c) (Some [(''file_key'', file_key su)])))"
    if h: "path_exists E filepath \<and>
    signed_reply E (remote w) (baseUrl c @ ''/api/v1/library/custom-apps/upload'')
      [(''name'', last_segment filepath)]
      [(''Authorization'', ''Bearer '' @ apiToken c),
       (''Content-Type'', ''application/x-www-form-urlencoded'')] = (Inr su, sa) \<and>
    storage_reply E sa (post_url su) (fileFormData filepath su) = (Inr stored, sb)"
  proof -
    let ?w2 = "\<lparr>trace = trace w @ [signed_url_call c (last_segment filepath) (Inr su),
                                     storage_post filepath su (Inr stored)], remote = sb\<rparr>"
    from h have "upload E c filepath appId w =
        (case updateCustomApp E c appId (file_key su) 0 ?w2 of
           (Inl e, w3) \<Rightarrow> (Inl e, w3) | (Inr b, w3) \<Rightarrow> (Inr (), w3))"
      using upload_steps[of E filepath w c su sa "Inr stored" sb appId] by simp
    then have "snd (upload E c filepath appId w) = snd (updateCustomApp E c appId (file_key su) 0 ?w2)"
      by (simp split: prod.splits sum.splits)
    with updateCustomApp_events[of E c appId "file_key su" 0 ?w2] show ?thesis
      by (simp only: rng) simp
  qed
  show ?thesis
    by (rule conjI[OF a impI[OF b]])
qed

theorem attach_attempts_identical_witness:
  "\<exists>evs. trace (snd (upload (scripted [Inl busy, Inr ''app'']) kc ''/tmp/build.zip'' ''app-123'' w0)) =
           trace w0 @ [signed_url_call kc ''build.zip'' (Inr target),
                      storage_post ''/tmp/build.zip'' target (Inr [])] @ evs \<and>
         set evs \<subseteq> insert (Delay 5000)
           (range (ApiCall ''PATCH'' ''https://api/api/v1/library/custom-apps/app-123''
                     (api_headers kc) (Some [(''file_key'', ''k1'')])))"
proof -
  have ls: "last_segment ''/tmp/build.zip'' = ''build.zip''"
    by (simp add: last_segment_def)
  have h: "path_exists (scripted [Inl busy, Inr ''app'']) ''/tmp/build.zip'' \<and>
    signed_reply (scripted [Inl busy, Inr ''app'']) (remote w0) (baseUrl kc @ ''/api/v1/library/custom-apps/upload'')
      [(''name'', last_segment ''/tmp/build.zip'')]
      [(''Authorization'', ''Bearer '' @ apiToken kc),
       (''Content-Type'', ''application/x-www-form-urlencoded'')] = (Inr target, 0) \<and>
    storage_reply (scripted [Inl busy, Inr ''app'']) 0 (post_url target) (fileFormData ''/tmp/build.zip'' target) = (Inr [], 0)"
    by (simp add: scripted_def w0_def)
  from attach_attempts_identical[where E = "scripted [Inl busy, Inr ''app'']" and c = kc
      and appId = "''app-123''" and fileKey = "''k1''" and attempt = 0 and w = w0
      and filepath = "''/tmp/build.zip''" and su = target and sa = 0 and stored = "[]" and sb = 0] h
  show ?thesis
    by (simp add: ls kc_def target_def)
qed

section \<open>The client\<close>

lemma sent_with_attach: "sent_with (baseUrl c) (apiToken c) (attach_call c appId fileKey r)"
  by (simp add: attach_call_def api_headers_def)

lemma sent_with_signed: "sent_with (baseUrl c) (apiToken c) (signed_url_call c filename r)"
  by (simp add: signed_url_call_def)

lemma updateCustomApp_sent_with:
  "list_all (sent_with (baseUrl c) (apiToken c))
     (since w (snd (updateCustomApp E c appId fileKey attempt w)))"
proof -
  obtain evs where tr: "trace (snd (updateCustomApp E c appId fileKey attempt w)) = trace w @ evs"
    and evs: "set evs \<subseteq> insert (Delay 5000) (range (attach_call c appId fileKey))"
    using updateCustomApp_events by blast
  from evs have "list_all (sent_with (baseUrl c) (apiToken c)) evs"
    by (auto simp: list_all_iff sent_with_attach)
  with since_append[OF tr] show ?thesis by simp
qed

lemma upload_sent_with:
  "list_all (sent_with (baseUrl c) (apiToken c)) (since w (snd (upload E c filepath appId w)))"
proof (cases "path_exists E filepath")
  case False
  then show ?thesis by (simp add: upload_def since_def)
next
  case True
  obtain g w1 where g: "getSignedUrl E c (last_segment filepath) w = (g, w1)"
    by (cases "getSignedUrl E c (last_segment filepath) w")
  note t1 = getSignedUrl_trace[OF g]
  show ?thesis
  proof (cases g)
    case (Inl e)
    with True g have "snd (upload E c filepath appId w) = w1"
      by (simp add: upload_def)
    with since_append[OF t1] show ?thesis
      by (simp add: sent_with_signed)
  next
    case su: (Inr su)
    obtain p w2 where p: "uploadToS3 E filepath su w1 = (p, w2)"
      by (cases "uploadToS3 E filepath su w1")
    from uploadToS3_trace[OF p] t1
    have t2: "trace w2 = trace w @ [signed_url_call c (last_segment filepath) g, storage_post filepath su p]"
      by simp
    show ?thesis
    proof (cases p)
      case (Inl e)
      with True g su p have "snd (upload E c filepath appId w) = w2"
        by (simp add: upload_def)
      with since_append[OF t2] show ?thesis
        by (simp add: sent_with_signed storage_post_def)
    next
      case (Inr stored)
      with True g su p
      have w3: "snd (upload E c filepath appId w) = snd (updateCustomApp E c appId (file_key su) 0 w2)"
        by (simp add: upload_def split: prod.splits sum.splits)
      obtain evs where tr: "trace (snd (updateCustomApp E c appId (file_key su) 0 w2)) = trace w2 @ evs"
        and evs: "set evs \<subseteq> insert (Delay 5000) (range (attach_call c appId (file_key su)))"
        using updateCustomApp_events by blast
      from evs have ok: "list_all (sent_with (baseUrl c) (apiToken c)) evs"
        by (auto simp: list_all_iff sent_with_attach)
      from tr t2 w3
      have "trace (snd (upload E c filepath appId w)) =
              trace w @ ([signed_url_call c (last_segment filepath) g, storage_post filepath su p] @ evs)"
        by simp
      from since_append[OF this] ok show ?thesis
        by (simp add: sent_with_signed storage_post_def)
    qed
  qed
qed

lemma request_sent_with:
  "list_all (sent_with (baseUrl c) (apiToken c)) (since w (snd (request E c verb endpoint d w)))"
proof -
  obtain r w1 where r: "request E c verb endpoint d w = (r, w1)"
    by (cases "request E c verb endpoint d w")
  from since_append[OF request_trace[OF r]] r show ?thesis
    by (simp add: api_headers_def)
qed

text \<open>
  C10. The constructor of \<open>KandjiClient\<close> fails with the error "Base URL and API token are
  required." exactly when the base URL or the API token is missing or empty, and it
  returns a client exactly when both are non-empty; the client holds the two values
  unchanged. The constructor takes no world, and a \<open>publish\<close> whose client cannot be
  constructed leaves the world as it was: nothing is sent. Every request that \<open>request\<close>,
  the attach loop and the whole of \<open>upload\<close> send to the Kandji API for a constructed client
  goes to a URL under the base URL given to the constructor and carries the token given
  to it as the bearer token.
\<close>

theorem KandjiClient_requires_both:
  "(KandjiClient url token = Inl (Error ''Base URL and API token are required.'')) =
     (url = None \<or> url = Some [] \<or> token = None \<or> token = Some []) \<and>
   (KandjiClient url token = Inr c) =
     (url = Some (baseUrl c) \<and> token = Some (apiToken c) \<and> baseUrl c \<noteq> [] \<and> apiToken c \<noteq> []) \<and>
   (KandjiClient (KANDJI_BASE_URL E) (KANDJI_API_TOKEN E) = Inl e \<longrightarrow>
      snd (publish E cfg ctx w) = w) \<and>
   (KandjiClient (Some u) (Some k) = Inr c \<longrightarrow>
      list_all (sent_with u k) (since w (snd (request E c verb endpoint d w))) \<and>
      list_all (sent_with u k) (since w (snd (updateCustomApp E c appId fileKey attempt w))) \<and>
      list_all (sent_with u k) (since w (snd (upload E c filepath appId w))))"
proof -
  have a: "(KandjiClient url token = Inl (Error ''Base URL and API token are required.'')) =
     (url = None \<or> url = Some [] \<or> token = None \<or> token = Some [])"
    by (cases url; cases token) (simp_all add: KandjiClient_def)
  have b: "(KandjiClient url token = Inr c) =
     (url = Some (baseUrl c) \<and> token = Some (apiToken c) \<and> baseUrl c \<noteq> [] \<and> apiToken c \<noteq> [])"
    by (cases url; cases token; cases c) (auto simp: KandjiClient_def)
  have p: "snd (publish E cfg ctx w) = w"
    if "KandjiClient (KANDJI_BASE_URL E) (KANDJI_API_TOKEN E) = Inl e"
    using that by (simp add: publish_def publish_run_def)
  have s: "list_all (sent_with u k) (since w (snd (request E c verb endpoint d w))) \<and>
      list_all (sent_with u k) (since w (snd (updateCustomApp E c appId fileKey attempt w))) \<and>
      list_all (sent_with u k) (since w (snd (upload E c filepath appId w)))"
    if "KandjiClient (Some u) (Some k) = Inr c"
  proof -
    from that have "u = baseUrl c" "k = apiToken c"
      by (auto simp: KandjiClient_def split: if_splits)
    then show ?thesis
      by (simp add: request_sent_with updateCustomApp_sent_with upload_sent_with)
  qed
  show ?thesis
    by (rule conjI[OF a conjI[OF b conjI[OF impI[OF p] impI[OF s]]]])
qed

theorem KandjiClient_requires_both_witness:
  "KandjiClient None (Some ''t'') = Inl (Error ''Base URL and API token are required.'') \<and>
   KandjiClient (Some ''https://api'') (Some []) = Inl (Error ''Base URL and API token are required.'') \<and>
   KandjiClient (Some ''https://api'') (Some ''t'') = Inr kc \<and>
   list_all (sent_with ''https://api'' ''t'')
     (since w0 (snd (upload (scripted [Inl busy, Inr ''app'']) kc ''/tmp/build.zip'' ''app-123'' w0))) \<and>
   snd (publish ((scripted [])\<lparr>KANDJI_API_TOKEN := None\<rparr>) example_config on_main w0) = w0"
proof -
  have k: "KandjiClient (Some ''https://api'') (Some ''t'') = Inr kc"
    using KandjiClient_requires_both[where url = "Some ''https://api''" and token = "Some ''t''"
      and c = kc and u = "''https://api''" and k = "''t''" and E = "scripted []" and w = w0
      and cfg = example_config and ctx = on_main and e = "Error []" and verb = "''GET''"
      and endpoint = "[]" and d = None and appId = "[]" and fileKey = "[]" and attempt = 0
      and filepath = "[]"]
    by (simp add: kc_def)
  have m: "KandjiClient (KANDJI_BASE_URL ((scripted [])\<lparr>KANDJI_API_TOKEN := None\<rparr>))
             (KANDJI_API_TOKEN ((scripted [])\<lparr>KANDJI_API_TOKEN := None\<rparr>)) =
           Inl (Error ''Base URL and API token are required.'')"
    using KandjiClient_requires_both[where url = "KANDJI_BASE_URL ((scripted [])\<lparr>KANDJI_API_TOKEN := None\<rparr>)"
      and token = "KANDJI_API_TOKEN ((scripted [])\<lparr>KANDJI_API_TOKEN := None\<rparr>)"
      and c = kc and u = "''https://api''" and k = "''t''" and E = "scripted []" and w = w0
      and cfg = example_config and ctx = on_main and e = "Error []" and verb = "''GET''"
      and endpoint = "[]" and d = None and appId = "[]" and fileKey = "[]" and attempt = 0
      and filepath = "[]"]
    by simp
  note A = KandjiClient_requires_both[where url = None and token = "Some ''t''"
      and c = kc and u = "''https://api''" and k = "''t''"
      and E = "(scripted [])\<lparr>KANDJI_API_TOKEN := None\<rparr>" and w = w0
      and cfg = example_config and ctx = on_main
      and e = "Error ''Base URL and API token are required.''" and verb = "''GET''"
      and endpoint = "[]" and d = None and appId = "[]" and fileKey = "[]" and attempt = 0
      and filepath = "[]"]
  note B = KandjiClient_requires_both[where url = "Some ''https://api''" and token = "Some []"
      and c = kc and u = "''https://api''" and k = "''t''"
      and E = "scripted [Inl busy, Inr ''app'']" and w = w0
      and cfg = example_config and ctx = on_main and e = "Error []" and verb = "''GET''"
      and endpoint = "[]" and d = None and appId = "''app-123''" and fileKey = "[]" and attempt = 0
      and filepath = "''/tmp/build.zip''"]
  from A m have a: "KandjiClient None (Some ''t'') = Inl (Error ''Base URL and API token are required.'')"
    and p: "snd (publish ((scripted [])\<lparr>KANDJI_API_TOKEN := None\<rparr>) example_config on_main w0) = w0"
    by simp_all
  from B k have b: "KandjiClient (Some ''https://api'') (Some []) = Inl (Error ''Base URL and API token are required.'')"
    and s: "list_all (sent_with ''https://api'' ''t'')
     (since w0 (snd (upload (scripted [Inl busy, Inr ''app'']) kc ''/tmp/build.zip'' ''app-123'' w0)))"
    by simp_all
  from a b k s p show ?thesis by (intro conjI)
qed

text \<open>
  C4. The multipart body that \<open>uploadToS3\<close> posts to the storage backend is the field
  \<open>key\<close> with the file key of the target, then every field of \<open>post_data\<close> that is not
  named \<open>key\<close>, in the order of \<open>post_data\<close>, then the field \<open>file\<close> with the stream of the
  file. Exactly one field of the body is named \<open>key\<close>, whatever \<open>post_data\<close> holds.
\<close>

theorem uploadToS3_key_once:
  "fileFormData filepath signedUrl =
     (''key'', Field (file_key signedUrl))
     # map (\<lambda>(name, v). (name, Field v)) (filter (\<lambda>(name, v). name \<noteq> ''key'') (post_data signedUrl))
     @ [(''file'', FileStream filepath)] \<and>
   length (filter (\<lambda>(name, v). name = ''key'') (fileFormData filepath signedUrl)) = 1 \<and>
   trace (snd (uploadToS3 E filepath signedUrl w)) =
     trace w @ [StoragePost (post_url signedUrl) (fileFormData filepath signedUrl)
                  (fst (uploadToS3 E filepath signedUrl w))]"
proof -
  have "filter (\<lambda>(name, v). name = ''key'')
          (map (\<lambda>(name, v). (name, Field v)) (filter (\<lambda>(name, v). name \<noteq> ''key'') xs)) = []"
    for xs :: "(string \<times> string) list"
    by (induction xs) auto
  then show ?thesis
    by (auto simp: fileFormData_def uploadToS3_def emit_def Let_def split: prod.splits)
qed

theorem uploadToS3_key_once_witness:
  "fileFormData ''/tmp/build.zip''
     \<lparr>post_url = ''https://s3/x'', file_key = ''k1'', post_data = [(''key'', ''other''), (''policy'', ''p'')]\<rparr> =
   [(''key'', Field ''k1''), (''policy'', Field ''p''), (''file'', FileStream ''/tmp/build.zip'')]"
  using uploadToS3_key_once [where filepath = "''/tmp/build.zip''" and E = "scripted []" and w = w0
      and signedUrl = "\<lparr>post_url = ''https://s3/x'', file_key = ''k1'',
                         post_data = [(''key'', ''other''), (''policy'', ''p'')]\<rparr>"]
  by simp

section \<open>The release plugin: gate, asset and follow-up\<close>

text \<open>
  C6. With \<open>release\<close> defaulting to true and \<open>preRelease\<close> to false, \<open>publish\<close> and
  \<open>kandjiSemanticReleasePlugin\<close> go on past their gate exactly when the branch is a
  prerelease branch and \<open>preRelease\<close> is true, or the branch is not a prerelease branch and
  \<open>release\<close> is true. In every other case they return at once and leave the world as it
  was: nothing is sent.
\<close>

theorem release_gate:
  "publish E cfg ctx w =
     (if (truthy (branch_prerelease ctx) \<and> default False (preRelease cfg)) \<or>
         (\<not> truthy (branch_prerelease ctx) \<and> default True (release cfg))
      then publish_run E cfg ctx w else (Inr (), w)) \<and>
   kandjiSemanticReleasePlugin E cfg ctx w =
     (if (truthy (branch_prerelease ctx) \<and> default False (preRelease cfg)) \<or>
         (\<not> truthy (branch_prerelease ctx) \<and> default True (release cfg))
      then plugin_run E cfg ctx w else (Inr (), w))"
  by (auto simp: publish_def kandjiSemanticReleasePlugin_def skipped_def)

theorem release_gate_witness:
  "publish (scripted []) example_config on_beta w0 = (Inr (), w0) \<and>
   kandjiSemanticReleasePlugin (scripted []) example_config on_beta w0 = (Inr (), w0) \<and>
   publish (scripted []) example_config on_main w0 = publish_run (scripted []) example_config on_main w0 \<and>
   publish (scripted []) (example_config\<lparr>preRelease := Some True\<rparr>) on_beta w0 =
     publish_run (scripted []) (example_config\<lparr>preRelease := Some True\<rparr>) on_beta w0 \<and>
   publish (scripted []) (example_config\<lparr>release := Some False\<rparr>) on_main w0 = (Inr (), w0)"
  using release_gate[where E = "scripted []" and cfg = example_config and ctx = on_beta and w = w0]
        release_gate[where E = "scripted []" and cfg = example_config and ctx = on_main and w = w0]
        release_gate[where E = "scripted []" and cfg = "example_config\<lparr>preRelease := Some True\<rparr>"
          and ctx = on_beta and w = w0]
        release_gate[where E = "scripted []" and cfg = "example_config\<lparr>release := Some False\<rparr>"
          and ctx = on_main and w = w0]
  by (simp add: example_config_def on_beta_def on_main_def)

lemma scripted_upload_at:
  assumes "path_exists (scripted rs) p"
  shows "upload (scripted rs) kc p ''app-123'' w0 =
     (case updateCustomApp (scripted rs) kc ''app-123'' ''k1'' 0
             \<lparr>trace = [signed_url_call kc (last_segment p) (Inr target),
                       storage_post p target (Inr [])], remote = 0\<rparr> of
        (Inl e, w3) \<Rightarrow> (Inl e, w3)
      | (Inr b, w3) \<Rightarrow> (Inr (), w3))"
proof -
  have "upload (scripted rs) kc p ''app-123'' w0 =
          (case (Inr [] :: js_error + body) of
              Inl e \<Rightarrow>
                (Inl e, \<lparr>trace = trace w0 @ [signed_url_call kc (last_segment p) (Inr target),
                                            storage_post p target (Inl e)], remote = 0\<rparr>)
            | Inr stored \<Rightarrow>
                (case updateCustomApp (scripted rs) kc ''app-123'' (file_key target) 0
                        \<lparr>trace = trace w0 @ [signed_url_call kc (last_segment p) (Inr target),
                                            storage_post p target (Inr stored)], remote = 0\<rparr> of
                   (Inl e, w3) \<Rightarrow> (Inl e, w3)
                 | (Inr b, w3) \<Rightarrow> (Inr (), w3)))"
    by (rule upload_steps) (simp_all add: assms, simp_all add: scripted_def w0_def)
  then show ?thesis
    by (simp add: w0_def target_def)
qed

lemma scripted_upload_first_try:
  assumes "path_exists (scripted (Inr b # rs)) p"
  shows "upload (scripted (Inr b # rs)) kc p ''app-123'' w0 =
     (Inr (), \<lparr>trace = [signed_url_call kc (last_segment p) (Inr target),
                        storage_post p target (Inr []),
                        attach_call kc ''app-123'' ''k1'' (Inr b)], remote = 1\<rparr>)"
proof -
  let ?w2 = "\<lparr>trace = [signed_url_call kc (last_segment p) (Inr target),
                       storage_post p target (Inr [])], remote = 0::nat\<rparr>"
  have "api_reply (scripted (Inr b # rs)) (remote ?w2) ''PATCH''
          (baseUrl kc @ ''/api/v1/library/custom-apps/'' @ ''app-123'')
          (api_headers kc) (Some [(''file_key'', ''k1'')]) = (Inr b, 1)"
    by (simp add: scripted_def)
  from updateCustomApp_ok[OF _ this, of 0] show ?thesis
    by (simp add: scripted_upload_at[OF assms])
qed

lemma resolve_example:
  "replace_version [] ''/tmp/build-${nextRelease.version}.zip'' ''1.2.0'' = ''/tmp/build-1.2.0.zip''"
  by (simp add: replace_version.simps version_placeholder_def)

text \<open>
  C7. For a version that is not empty, \<open>resolveAsset\<close> returns the matched path when the
  processed pattern matches exactly one file, and fails with an error that names the
  processed pattern when it matches no file or more than one. \<open>resolveAsset\<close> is a function
  of the pattern, the version and the glob library alone, and a \<open>publish\<close> whose asset
  does not resolve leaves the world as it was: nothing is sent.
\<close>

theorem resolveAsset_one_match:
  assumes "version \<noteq> []"
  shows
    "(glob_sync E (replace_version [] pattern version) = [resolved] \<longrightarrow>
        resolveAsset E (Some pattern) (Some version) = Inr resolved) \<and>
     (glob_sync E (replace_version [] pattern version) = [] \<longrightarrow>
        resolveAsset E (Some pattern) (Some version) =
          Inl (Error (''No files found for pattern: '' @ replace_version [] pattern version))) \<and>
     (1 < length (glob_sync E (replace_version [] pattern version)) \<longrightarrow>
        resolveAsset E (Some pattern) (Some version) =
          Inl (Error (''Multiple files matched for pattern '' @ [CHR 0x22]
                 @ replace_version [] pattern version @ [CHR 0x22]
                 @ '', but only one asset is allowed.''))) \<and>
     (resolveAsset E (asset cfg) (nextRelease_version ctx) = Inl e \<longrightarrow>
        snd (publish E cfg ctx w) = w)"
  using assms
  by (auto simp: resolveAsset_def publish_def publish_run_def Let_def split: sum.splits)

theorem resolveAsset_one_match_witness:
  "resolveAsset (scripted []) (Some ''/tmp/build-${nextRelease.version}.zip'') (Some ''1.2.0'') =
     Inr ''/tmp/build-1.2.0.zip'' \<and>
   resolveAsset (scripted []) (Some ''/tmp/build*.zip'') (Some ''1.2.0'') =
     Inl (Error (''Multiple files matched for pattern '' @ [CHR 0x22] @ ''/tmp/build*.zip'' @ [CHR 0x22]
            @ '', but only one asset is allowed.'')) \<and>
   resolveAsset (scripted []) (Some ''/tmp/none.zip'') (Some ''1.2.0'') =
     Inl (Error ''No files found for pattern: /tmp/none.zip'') \<and>
   snd (publish (scripted []) (example_config\<lparr>asset := Some ''/tmp/none.zip''\<rparr>) on_main w0) = w0"
proof -
  have r1: "replace_version [] ''/tmp/build*.zip'' ''1.2.0'' = ''/tmp/build*.zip''"
    by (simp add: replace_version.simps version_placeholder_def)
  have r2: "replace_version [] ''/tmp/none.zip'' ''1.2.0'' = ''/tmp/none.zip''"
    by (simp add: replace_version.simps version_placeholder_def)
  have g0: "glob_sync (scripted []) ''/tmp/build-1.2.0.zip'' = [''/tmp/build-1.2.0.zip'']"
    and g1: "1 < length (glob_sync (scripted []) ''/tmp/build*.zip'')"
    and g2: "glob_sync (scripted []) ''/tmp/none.zip'' = []"
    by (simp_all add: scripted_def)
  have v: "''1.2.0'' \<noteq> []" by simp
  note a = resolveAsset_one_match[OF v, where E = "scripted []" and resolved = "''/tmp/build-1.2.0.zip''"
      and pattern = "''/tmp/build-${nextRelease.version}.zip''" and cfg = example_config and ctx = on_main
      and w = w0 and e = "Error []"]
  note b = resolveAsset_one_match[OF v, where E = "scripted []" and resolved = "[]"
      and pattern = "''/tmp/build*.zip''" and cfg = example_config and ctx = on_main
      and w = w0 and e = "Error []"]
  note c = resolveAsset_one_match[OF v, where E = "scripted []" and resolved = "[]"
      and pattern = "''/tmp/none.zip''" and cfg = "example_config\<lparr>asset := Some ''/tmp/none.zip''\<rparr>"
      and ctx = on_main and w = w0 and e = "Error ''No files found for pattern: /tmp/none.zip''"]
  from a have A: "resolveAsset (scripted []) (Some ''/tmp/build-${nextRelease.version}.zip'') (Some ''1.2.0'') =
     Inr ''/tmp/build-1.2.0.zip''"
    by (simp add: resolve_example g0)
  from b have B: "resolveAsset (scripted []) (Some ''/tmp/build*.zip'') (Some ''1.2.0'') =
     Inl (Error (''Multiple files matched for pattern '' @ [CHR 0x22] @ ''/tmp/build*.zip'' @ [CHR 0x22]
            @ '', but only one asset is allowed.''))"
    using g1 by (simp add: r1)
  from c have C: "resolveAsset (scripted []) (Some ''/tmp/none.zip'') (Some ''1.2.0'') =
     Inl (Error ''No files found for pattern: /tmp/none.zip'')"
    by (simp add: r2 g2)
  from c C have D: "snd (publish (scripted []) (example_config\<lparr>asset := Some ''/tmp/none.zip''\<rparr>) on_main w0) = w0"
    by (simp add: example_config_def on_main_def)
  from A B C D show ?thesis by (intro conjI)
qed

text \<open>
  The follow-up of each entry point, for a script under the member that the entry point
  reads: when the gate is passed, the client is constructed and \<open>upload\<close> succeeded, a script
  that is not empty is joined with newlines and sent in exactly one more request, a PATCH
  of \<open>postinstall_script\<close> to the custom app. The outcome of the entry point is the outcome of
  that request, and the request is the last event.
\<close>

lemma postinstall_follow_up:
  assumes "script \<noteq> []"
    and "api_reply E (remote w1) ''PATCH''
           (baseUrl c @ ''/api/v1/library/custom-apps/'' @ template (appID cfg)) (api_headers c)
           (Some [(''postinstall_script'', join [CHR 0x0A] script)]) = (r, s)"
    and "KandjiClient (KANDJI_BASE_URL E) (KANDJI_API_TOKEN E) = Inr c"
    and "skipped (default True (release cfg)) (default False (preRelease cfg))
           (truthy (branch_prerelease ctx)) = False"
  shows
    "(postinstallScript cfg = Some script \<and>
      resolveAsset E (asset cfg) (nextRelease_version ctx) = Inr resolved \<and>
      upload E c resolved (template (appID cfg)) w = (Inr u, w1) \<longrightarrow>
        publish E cfg ctx w =
          (case r of Inl e \<Rightarrow> Inl e | Inr b \<Rightarrow> Inr (),
           \<lparr>trace = trace w1 @ [postinstall_call c (template (appID cfg)) script r], remote = s\<rparr>)) \<and>
     (postinstall_script cfg = Some script \<and>
      appID cfg = Some app \<and> app \<noteq> [] \<and> asset cfg = Some resolved \<and> resolved \<noteq> [] \<and>
      path_exists E resolved \<and> upload E c resolved app w = (Inr u, w1) \<longrightarrow>
        kandjiSemanticReleasePlugin E cfg ctx w =
          (case r of Inl e \<Rightarrow> Inl e | Inr b \<Rightarrow> Inr (),
           \<lparr>trace = trace w1 @ [postinstall_call c app script r], remote = s\<rparr>))"
proof -
  have req: "request E c ''PATCH'' (custom_app_endpoint (template (appID cfg)))
               (Some [(''postinstall_script'', join [CHR 0x0A] script)]) w1 =
             (r, \<lparr>trace = trace w1 @ [postinstall_call c (template (appID cfg)) script r], remote = s\<rparr>)"
    using assms(2)
    by (simp add: request_def emit_def postinstall_call_def custom_app_endpoint_def)
  have pp: "patch_postinstall E c (appID cfg) script w1 =
          (case r of Inl e \<Rightarrow> Inl e | Inr b \<Rightarrow> Inr (),
           \<lparr>trace = trace w1 @ [postinstall_call c (template (appID cfg)) script r], remote = s\<rparr>)"
    using assms(1) req by (simp add: patch_postinstall_def split: sum.splits)
  from assms(3) have env: "falsy (KANDJI_BASE_URL E) = False" "falsy (KANDJI_API_TOKEN E) = False"
    by (auto simp: KandjiClient_def split: if_splits)
  have a: "publish E cfg ctx w =
          (case r of Inl e \<Rightarrow> Inl e | Inr b \<Rightarrow> Inr (),
           \<lparr>trace = trace w1 @ [postinstall_call c (template (appID cfg)) script r], remote = s\<rparr>)"
    if "postinstallScript cfg = Some script \<and>
      resolveAsset E (asset cfg) (nextRelease_version ctx) = Inr resolved \<and>
      upload E c resolved (template (appID cfg)) w = (Inr u, w1)"
    using that assms(3,4) pp by (simp add: publish_def publish_run_def)
  have b: "kandjiSemanticReleasePlugin E cfg ctx w =
          (case r of Inl e \<Rightarrow> Inl e | Inr b \<Rightarrow> Inr (),
           \<lparr>trace = trace w1 @ [postinstall_call c app script r], remote = s\<rparr>)"
    if "postinstall_script cfg = Some script \<and>
      appID cfg = Some app \<and> app \<noteq> [] \<and> asset cfg = Some resolved \<and> resolved \<noteq> [] \<and>
      path_exists E resolved \<and> upload E c resolved app w = (Inr u, w1)"
    using that assms(3,4) pp env by (simp add: kandjiSemanticReleasePlugin_def plugin_run_def)
  show ?thesis
    by (rule conjI[OF impI[OF a] impI[OF b]])
qed

text \<open>\<open>publish\<close> does not read the member \<open>postinstall_script\<close>.\<close>

lemma publish_ignores_postinstall_script:
  "publish E (cfg\<lparr>postinstall_script := x\<rparr>) ctx w = publish E cfg ctx w"
  by (simp add: publish_def publish_run_def split: sum.splits prod.splits)

text \<open>
  C8. The claim fails for \<open>publish\<close> on a configuration written as the README documents
  it, with the script under \<open>postinstall_script\<close>: after the successful upload \<open>publish\<close>
  returns without the PATCH of the script, because it reads the member
  \<open>postinstallScript\<close>. \<open>kandjiSemanticReleasePlugin\<close>, on the same configuration and the
  same backend, joins the lines with a newline and sends them in one PATCH after the
  upload.
\<close>

theorem publish_drops_documented_script:
  "postinstall_script readme_config = Some [''#!/bin/bash'', ''echo done''] \<and>
   publish (scripted [Inr ''app'', Inr ''patched'']) readme_config on_main w0 =
     (Inr (),
      \<lparr>trace = [signed_url_call kc ''build.zip'' (Inr target),
                storage_post ''/tmp/build.zip'' target (Inr []),
                attach_call kc ''app-123'' ''k1'' (Inr ''app'')],
         remote = 1\<rparr>) \<and>
   kandjiSemanticReleasePlugin (scripted [Inr ''app'', Inr ''patched'']) readme_config on_main w0 =
     (Inr (),
      \<lparr>trace = [signed_url_call kc ''build.zip'' (Inr target),
                storage_post ''/tmp/build.zip'' target (Inr []),
                attach_call kc ''app-123'' ''k1'' (Inr ''app''),
                postinstall_call kc ''app-123'' [''#!/bin/bash'', ''echo done''] (Inr ''patched'')],
         remote = 2\<rparr>) \<and>
   join [CHR 0x0A] [''#!/bin/bash'', ''echo done''] = ''#!/bin/bash'' @ [CHR 0x0A] @ ''echo done''"
proof -
  let ?E = "scripted [Inr ''app'', Inr ''patched'']"
  let ?script = "[''#!/bin/bash'', ''echo done'']"
  let ?w1 = "\<lparr>trace = [signed_url_call kc (last_segment ''/tmp/build.zip'') (Inr target),
                       storage_post ''/tmp/build.zip'' target (Inr []),
                       attach_call kc ''app-123'' ''k1'' (Inr ''app'')], remote = 1::nat\<rparr>"
  have ls: "last_segment ''/tmp/build.zip'' = ''build.zip''"
    by (simp add: last_segment_def)
  have up: "upload ?E kc ''/tmp/build.zip'' ''app-123'' w0 = (Inr (), ?w1)"
    by (rule scripted_upload_first_try) (simp add: scripted_def)
  have k: "KandjiClient (KANDJI_BASE_URL ?E) (KANDJI_API_TOKEN ?E) = Inr kc"
    by (simp add: scripted_def KandjiClient_def kc_def)
  have rv: "replace_version [] ''/tmp/build.zip'' ''1.2.0'' = ''/tmp/build.zip''"
    by (simp add: replace_version.simps version_placeholder_def)
  have ra: "resolveAsset ?E (asset readme_config) (nextRelease_version on_main) = Inr ''/tmp/build.zip''"
    by (simp add: resolveAsset_def readme_config_def on_main_def rv Let_def scripted_def)
  have g: "skipped (default True (release readme_config)) (default False (preRelease readme_config))
           (truthy (branch_prerelease on_main)) = False"
    by (simp add: skipped_def readme_config_def on_main_def)
  have none: "postinstallScript readme_config = None" and app: "appID readme_config = Some ''app-123''"
    by (simp_all add: readme_config_def)
  from g k ra up none app
  have a: "publish ?E readme_config on_main w0 =
     (Inr (),
      \<lparr>trace = [signed_url_call kc ''build.zip'' (Inr target),
                storage_post ''/tmp/build.zip'' target (Inr []),
                attach_call kc ''app-123'' ''k1'' (Inr ''app'')],
         remote = 1\<rparr>)"
    by (simp add: publish_def publish_run_def patch_postinstall_def ls)
  have p: "api_reply ?E (remote ?w1) ''PATCH''
           (baseUrl kc @ ''/api/v1/library/custom-apps/'' @ template (appID readme_config)) (api_headers kc)
           (Some [(''postinstall_script'', join [CHR 0x0A] ?script)]) = (Inr ''patched'', 2)"
    by (simp add: scripted_def)
  have ne: "?script \<noteq> []" by simp
  note B = postinstall_follow_up[OF ne p k g, where resolved = "''/tmp/build.zip''" and w = w0
             and u = "()" and app = "''app-123''"]
  from B up have b: "kandjiSemanticReleasePlugin ?E readme_config on_main w0 =
     (Inr (),
      \<lparr>trace = [signed_url_call kc ''build.zip'' (Inr target),
                storage_post ''/tmp/build.zip'' target (Inr []),
                attach_call kc ''app-123'' ''k1'' (Inr ''app''),
                postinstall_call kc ''app-123'' ?script (Inr ''patched'')],
         remote = 2\<rparr>)"
    by (simp add: readme_config_def ls scripted_def)
  from a b show ?thesis by (simp add: readme_config_def)
qed

end
